theory Spec2Isabelle
  imports Main
begin

section \<open>Python values and strings\<close>

text \<open>
  The component \<^verbatim>\<open>JiraSearchTicketComponent\<close> works on Python strings and on the
  values that \<^verbatim>\<open>response.json()\<close> returns. Strings are modelled as HOL strings, read as
  ASCII text: \<^verbatim>\<open>str.upper\<close> and \<^verbatim>\<open>str.strip\<close> are Python's on the ASCII range, and
  characters from 128 on are left alone by both. JSON numbers are integers here; floating
  point numbers are outside the model.
\<close>

definition dquote :: char where
  "dquote = CHR 0x22"

definition squote :: char where
  "squote = CHR 0x27"

definition backslash :: char where
  "backslash = CHR 0x5C"

definition newline :: char where
  "newline = CHR 0x0A"

text \<open>The ASCII characters for which \<^verbatim>\<open>str.isspace\<close> holds: tab, line feed, vertical tab,
  form feed, carriage return, the four separators 0x1C to 0x1F, and the space.\<close>

definition is_space :: "char \<Rightarrow> bool" where
  "is_space c = (c \<in> set [CHR 0x09, CHR 0x0A, CHR 0x0B, CHR 0x0C, CHR 0x0D,
                           CHR 0x1C, CHR 0x1D, CHR 0x1E, CHR 0x1F, CHR 0x20])"

definition strip :: "string \<Rightarrow> string" where
  "strip s = rev (dropWhile is_space (rev (dropWhile is_space s)))"

definition upper_char :: "char \<Rightarrow> char" where
  "upper_char c =
     (case map_of (zip ''abcdefghijklmnopqrstuvwxyz'' ''ABCDEFGHIJKLMNOPQRSTUVWXYZ'') c of
        None \<Rightarrow> c
      | Some u \<Rightarrow> u)"

definition upper :: "string \<Rightarrow> string" where
  "upper s = map upper_char s"

text \<open>\<^verbatim>\<open>sep.join(parts)\<close>\<close>

fun join :: "string \<Rightarrow> string list \<Rightarrow> string" where
  "join sep [] = []"
| "join sep [x] = x"
| "join sep (x # y # ys) = x @ sep @ join sep (y # ys)"

text \<open>\<^verbatim>\<open>str(n)\<close> for an integer: decimal digits, with a minus sign when negative.\<close>

definition digit_char :: "nat \<Rightarrow> char" where
  "digit_char d = ''0123456789abcdef'' ! d"

fun str_nat :: "nat \<Rightarrow> string" where
  "str_nat n = (if n < 10 then [digit_char n] else str_nat (n div 10) @ [digit_char (n mod 10)])"

definition str_int :: "int \<Rightarrow> string" where
  "str_int i = (if i < 0 then CHR ''-'' # str_nat (nat (- i)) else str_nat (nat i))"

text \<open>The values of \<^verbatim>\<open>response.json()\<close>: \<^verbatim>\<open>None\<close>, booleans, integers, strings, lists
  and dicts. A dict is an association list with distinct keys, in insertion order.\<close>

datatype json =
    JNull
  | JBool bool
  | JInt int
  | JStr string
  | JArr "json list"
  | JObj "(string \<times> json) list"

text \<open>The exceptions the component can meet. \<open>ValueError\<close> is the one \<^verbatim>\<open>_make_request\<close>
  raises itself, with its message; \<open>RequestException\<close> stands for \<^verbatim>\<open>requests.get\<close>
  raising (no response at all), \<open>JSONDecodeError\<close> for \<^verbatim>\<open>response.json()\<close> raising.
  All of them are subclasses of \<^verbatim>\<open>Exception\<close>.\<close>

datatype py_error =
    ValueError string
  | AttributeError
  | TypeError
  | JSONDecodeError
  | RequestException

text \<open>\<^verbatim>\<open>d.get(k, default)\<close>: only a dict has the method.\<close>

fun py_get :: "json \<Rightarrow> string \<Rightarrow> json \<Rightarrow> py_error + json" where
  "py_get (JObj kvs) k d = Inr (case map_of kvs k of None \<Rightarrow> d | Some v \<Rightarrow> v)"
| "py_get _ k d = Inl AttributeError"

text \<open>Truth value of a Python object, as \<^verbatim>\<open>if x\<close> tests it.\<close>

fun truthy :: "json \<Rightarrow> bool" where
  "truthy JNull = False"
| "truthy (JBool b) = b"
| "truthy (JInt n) = (n \<noteq> 0)"
| "truthy (JStr s) = (s \<noteq> [])"
| "truthy (JArr xs) = (xs \<noteq> [])"
| "truthy (JObj kvs) = (kvs \<noteq> [])"

text \<open>\<^verbatim>\<open>for x in v\<close>: a list gives its elements, a dict its keys, a string its characters;
  nothing else is iterable.\<close>

fun py_iter :: "json \<Rightarrow> py_error + json list" where
  "py_iter (JArr xs) = Inr xs"
| "py_iter (JObj kvs) = Inr (map (\<lambda>kv. JStr (fst kv)) kvs)"
| "py_iter (JStr s) = Inr (map (\<lambda>c. JStr [c]) s)"
| "py_iter _ = Inl TypeError"

text \<open>\<^verbatim>\<open>v[:n]\<close>: strings and lists can be sliced. A dict raises as well (TypeError up to
  Python 3.11, KeyError from 3.12 on; no caller tells them apart).\<close>

fun py_slice_to :: "nat \<Rightarrow> json \<Rightarrow> py_error + json" where
  "py_slice_to n (JStr s) = Inr (JStr (take n s))"
| "py_slice_to n (JArr xs) = Inr (JArr (take n xs))"
| "py_slice_to n _ = Inl TypeError"

text \<open>\<^verbatim>\<open>repr\<close> of a string: single quotes, unless the string has a single quote and no
  double quote; backslash, the chosen quote and control characters are escaped.\<close>

definition repr_char :: "char \<Rightarrow> char \<Rightarrow> string" where
  "repr_char q c =
     (if c = backslash then [backslash, backslash]
      else if c = q then [backslash, q]
      else if c = CHR 0x09 then [backslash, CHR ''t'']
      else if c = CHR 0x0A then [backslash, CHR ''n'']
      else if c = CHR 0x0D then [backslash, CHR ''r'']
      else if (of_char c :: nat) < 32 \<or> (of_char c :: nat) = 127
        then [backslash, CHR ''x'', digit_char (of_char c div 16), digit_char (of_char c mod 16)]
      else [c])"

definition repr_str :: "string \<Rightarrow> string" where
  "repr_str s =
     (let q = (if squote \<in> set s \<and> dquote \<notin> set s then dquote else squote)
      in q # concat (map (repr_char q) s) @ [q])"

text \<open>\<^verbatim>\<open>str(v)\<close> and \<^verbatim>\<open>repr(v)\<close>, which is what an f-string substitutes for \<^verbatim>\<open>{v}\<close>.
  They differ on strings only, and a container shows the \<^verbatim>\<open>repr\<close> of its elements.\<close>

fun py_repr :: "json \<Rightarrow> string" where
  "py_repr JNull = ''None''"
| "py_repr (JBool b) = (if b then ''True'' else ''False'')"
| "py_repr (JInt n) = str_int n"
| "py_repr (JStr s) = repr_str s"
| "py_repr (JArr xs) = ''['' @ join '', '' (map py_repr xs) @ '']''"
| "py_repr (JObj kvs) =
     ''{'' @ join '', '' (map (\<lambda>kv. repr_str (fst kv) @ '': '' @ py_repr (snd kv)) kvs) @ ''}''"

definition py_str :: "json \<Rightarrow> string" where
  "py_str v = (case v of JStr s \<Rightarrow> s | _ \<Rightarrow> py_repr v)"

text \<open>Sequencing of computations that may raise.\<close>

definition ebind :: "py_error + 'a \<Rightarrow> ('a \<Rightarrow> py_error + 'b) \<Rightarrow> py_error + 'b" where
  "ebind m f = (case m of Inl e \<Rightarrow> Inl e | Inr x \<Rightarrow> f x)"

declare str_nat.simps [simp del]

section \<open>Configuration, requests and the remote service\<close>

text \<open>The inputs of the component, read through \<^verbatim>\<open>self\<close>.\<close>

record config =
  jira_instance :: string
  api_token :: string
  username :: string
  search_type :: string
  max_results :: int
  include_comments :: bool
  include_attachments :: bool

text \<open>What \<^verbatim>\<open>requests.get(url, auth=..., headers=..., params=...)\<close> is called with.\<close>

record request =
  req_url :: string
  req_auth :: "string \<times> string"
  req_headers :: "(string \<times> string) list"
  req_params :: "(string \<times> json) list option"

text \<open>What the call gives back: the status code, the raw body \<^verbatim>\<open>response.text\<close>, and the
  outcome of \<^verbatim>\<open>response.json()\<close> (\<open>None\<close> when the body does not parse). The parser
  belongs to the HTTP library, so its result is part of the reply.\<close>

record response =
  status_code :: int
  text_body :: string
  json_body :: "json option"

datatype reply = NoResponse | Response response

text \<open>The remote service is a transition function on a state \<open>'w\<close> of its own, so the
  answer to a request may depend on everything asked before. The state of a run is the
  service's state and the requests sent so far, oldest first.\<close>

type_synonym 'w service = "'w \<Rightarrow> request \<Rightarrow> reply \<times> 'w"

record 'w run =
  world :: 'w
  sent :: "request list"

type_synonym ('a, 'w) prog = "'w run \<Rightarrow> (py_error + 'a) \<times> 'w run"

definition returnp :: "'a \<Rightarrow> ('a, 'w) prog" where
  "returnp x = (\<lambda>s. (Inr x, s))"

definition liftp :: "py_error + 'a \<Rightarrow> ('a, 'w) prog" where
  "liftp r = (\<lambda>s. (r, s))"

definition bindp :: "('a, 'w) prog \<Rightarrow> ('a \<Rightarrow> ('b, 'w) prog) \<Rightarrow> ('b, 'w) prog" where
  "bindp m f = (\<lambda>s. case m s of (Inl e, s') \<Rightarrow> (Inl e, s') | (Inr x, s') \<Rightarrow> f x s')"

text \<open>\<^verbatim>\<open>try: m  except Exception as e: h(e)\<close>. The requests already sent stay sent.\<close>

definition try_except :: "('a, 'w) prog \<Rightarrow> (py_error \<Rightarrow> ('a, 'w) prog) \<Rightarrow> ('a, 'w) prog" where
  "try_except m h = (\<lambda>s. case m s of (Inl e, s') \<Rightarrow> h e s' | (Inr x, s') \<Rightarrow> (Inr x, s'))"

section \<open>The HTTP client\<close>

definition mk_request :: "config \<Rightarrow> string \<Rightarrow> (string \<times> json) list option \<Rightarrow> request" where
  "mk_request self url params =
     \<lparr> req_url = url,
       req_auth = (username self, api_token self),
       req_headers = [(''Accept'', ''application/json''), (''Content-Type'', ''application/json'')],
       req_params = params \<rparr>"

text \<open>The part of \<^verbatim>\<open>_make_request\<close> after \<^verbatim>\<open>requests.get\<close> has returned.\<close>

definition check_response :: "response \<Rightarrow> py_error + json" where
  "check_response r =
     (if status_code r \<noteq> 200
      then Inl (ValueError (''Jira API request failed: '' @ str_int (status_code r) @ '' - '' @ text_body r))
      else (case json_body r of None \<Rightarrow> Inl JSONDecodeError | Some j \<Rightarrow> Inr j))"

definition make_request ::
  "'w service \<Rightarrow> config \<Rightarrow> string \<Rightarrow> (string \<times> json) list option \<Rightarrow> (json, 'w) prog" where
  "make_request srv self url params =
     (\<lambda>s. let req = mk_request self url params;
               (rep, w') = srv (world s) req;
               s' = \<lparr> world = w', sent = sent s @ [req] \<rparr>
           in (case rep of
                 NoResponse \<Rightarrow> (Inl RequestException, s')
               | Response r \<Rightarrow> (check_response r, s')))"

section \<open>Normalising tickets\<close>

record comment =
  c_author :: json
  c_created :: json
  c_body :: json

record attachment =
  a_filename :: json
  a_size :: json
  a_created :: json
  a_url :: json

text \<open>The dict \<^verbatim>\<open>processed_ticket\<close>. The keys \<^verbatim>\<open>comments\<close> and \<^verbatim>\<open>attachments\<close> are
  set only when the matching option is on.\<close>

record ticket =
  t_key :: json
  t_summary :: json
  t_description :: json
  t_status :: json
  t_priority :: json
  t_assignee :: json
  t_reporter :: json
  t_created :: json
  t_updated :: json
  t_url :: string
  t_comments :: "comment list option"
  t_attachments :: "attachment list option"

text \<open>The body of the loop in \<^verbatim>\<open>_get_comments\<close>; the three values are computed in the
  order of the dict display.\<close>

definition comment_of :: "json \<Rightarrow> py_error + comment" where
  "comment_of c =
     ebind (ebind (py_get c ''author'' (JObj [])) (\<lambda>a. py_get a ''displayName'' (JStr ''Unknown''))) (\<lambda>author.
     ebind (py_get c ''created'' JNull) (\<lambda>created.
     ebind (py_get c ''body'' JNull) (\<lambda>body.
     Inr \<lparr> c_author = author, c_created = created, c_body = body \<rparr>)))"

fun comments_loop :: "json list \<Rightarrow> comment list \<Rightarrow> py_error + comment list" where
  "comments_loop [] comments = Inr comments"
| "comments_loop (c # cs) comments =
     ebind (comment_of c) (\<lambda>x. comments_loop cs (comments @ [x]))"

definition get_comments :: "'w service \<Rightarrow> config \<Rightarrow> json \<Rightarrow> (comment list, 'w) prog" where
  "get_comments srv self ticket_key =
     (if \<not> include_comments self then returnp []
      else
        bindp (make_request srv self
                 (jira_instance self @ ''/rest/api/2/issue/'' @ py_str ticket_key @ ''/comment'') None)
          (\<lambda>response. liftp
             (ebind (py_get response ''comments'' (JArr [])) (\<lambda>v.
              ebind (py_iter v) (\<lambda>cs. comments_loop cs [])))))"

definition attachment_of :: "json \<Rightarrow> py_error + attachment" where
  "attachment_of a =
     ebind (py_get a ''filename'' JNull) (\<lambda>filename.
     ebind (py_get a ''size'' JNull) (\<lambda>size.
     ebind (py_get a ''created'' JNull) (\<lambda>created.
     ebind (py_get a ''content'' JNull) (\<lambda>content.
     Inr \<lparr> a_filename = filename, a_size = size, a_created = created, a_url = content \<rparr>))))"

fun attachments_loop :: "json list \<Rightarrow> attachment list \<Rightarrow> py_error + attachment list" where
  "attachments_loop [] attachments = Inr attachments"
| "attachments_loop (a # as) attachments =
     ebind (attachment_of a) (\<lambda>x. attachments_loop as (attachments @ [x]))"

definition get_attachments :: "'w service \<Rightarrow> config \<Rightarrow> json \<Rightarrow> (attachment list, 'w) prog" where
  "get_attachments srv self ticket_key =
     (if \<not> include_attachments self then returnp []
      else
        bindp (make_request srv self
                 (jira_instance self @ ''/rest/api/2/issue/'' @ py_str ticket_key) None)
          (\<lambda>response. liftp
             (ebind (ebind (py_get response ''fields'' (JObj [])) (\<lambda>f. py_get f ''attachment'' (JArr []))) (\<lambda>v.
              ebind (py_iter v) (\<lambda>as. attachments_loop as [])))))"

text \<open>The dict display of \<^verbatim>\<open>_process_ticket\<close>, evaluated top to bottom. The conditional
  expressions test \<^verbatim>\<open>fields.get("assignee")\<close> and \<^verbatim>\<open>fields.get("reporter")\<close> first.\<close>

definition ticket_fields :: "config \<Rightarrow> json \<Rightarrow> py_error + ticket" where
  "ticket_fields self raw =
     ebind (py_get raw ''key'' JNull) (\<lambda>ticket_key.
     ebind (py_get raw ''fields'' (JObj [])) (\<lambda>fields.
     ebind (py_get fields ''summary'' JNull) (\<lambda>summary.
     ebind (py_get fields ''description'' JNull) (\<lambda>description.
     ebind (ebind (py_get fields ''status'' (JObj [])) (\<lambda>v. py_get v ''name'' JNull)) (\<lambda>status.
     ebind (ebind (py_get fields ''priority'' (JObj [])) (\<lambda>v. py_get v ''name'' JNull)) (\<lambda>priority.
     ebind (ebind (py_get fields ''assignee'' JNull) (\<lambda>c.
              if truthy c
              then ebind (py_get fields ''assignee'' (JObj [])) (\<lambda>v. py_get v ''displayName'' JNull)
              else Inr (JStr ''Unassigned''))) (\<lambda>assignee.
     ebind (ebind (py_get fields ''reporter'' JNull) (\<lambda>c.
              if truthy c
              then ebind (py_get fields ''reporter'' (JObj [])) (\<lambda>v. py_get v ''displayName'' JNull)
              else Inr (JStr ''Unknown''))) (\<lambda>reporter.
     ebind (py_get fields ''created'' JNull) (\<lambda>created.
     ebind (py_get fields ''updated'' JNull) (\<lambda>updated.
     Inr \<lparr> t_key = ticket_key, t_summary = summary, t_description = description,
           t_status = status, t_priority = priority, t_assignee = assignee,
           t_reporter = reporter, t_created = created, t_updated = updated,
           t_url = jira_instance self @ ''/browse/'' @ py_str ticket_key,
           t_comments = None, t_attachments = None \<rparr>))))))))))"

definition process_ticket :: "'w service \<Rightarrow> config \<Rightarrow> json \<Rightarrow> (ticket, 'w) prog" where
  "process_ticket srv self raw =
     bindp (liftp (ticket_fields self raw)) (\<lambda>pt.
     bindp (if include_comments self
            then bindp (get_comments srv self (t_key pt)) (\<lambda>cs. returnp (pt\<lparr>t_comments := Some cs\<rparr>))
            else returnp pt) (\<lambda>pt.
     bindp (if include_attachments self
            then bindp (get_attachments srv self (t_key pt)) (\<lambda>as. returnp (pt\<lparr>t_attachments := Some as\<rparr>))
            else returnp pt) (\<lambda>pt.
     returnp pt)))"

fun results_loop :: "'w service \<Rightarrow> config \<Rightarrow> json list \<Rightarrow> ticket list \<Rightarrow> (ticket list, 'w) prog" where
  "results_loop srv self [] processed_results = returnp processed_results"
| "results_loop srv self (issue # issues) processed_results =
     bindp (process_ticket srv self issue) (\<lambda>t.
       results_loop srv self issues (processed_results @ [t]))"

definition process_search_results :: "'w service \<Rightarrow> config \<Rightarrow> json \<Rightarrow> (ticket list, 'w) prog" where
  "process_search_results srv self issues =
     bindp (liftp (py_iter issues)) (\<lambda>xs. results_loop srv self xs [])"

section \<open>The search operations\<close>

definition search_by_jql :: "'w service \<Rightarrow> config \<Rightarrow> string \<Rightarrow> (ticket list, 'w) prog" where
  "search_by_jql srv self jql_query =
     bindp (make_request srv self (jira_instance self @ ''/rest/api/2/search'')
              (Some [(''jql'', JStr jql_query), (''maxResults'', JInt (max_results self))]))
       (\<lambda>response.
          bindp (liftp (py_get response ''issues'' (JArr []))) (\<lambda>issues.
            process_search_results srv self issues))"

definition search_by_text :: "'w service \<Rightarrow> config \<Rightarrow> string \<Rightarrow> (ticket list, 'w) prog" where
  "search_by_text srv self text =
     (let jql_query = ''text ~ '' @ [dquote] @ text @ [dquote]
      in search_by_jql srv self jql_query)"

text \<open>The body of the \<^verbatim>\<open>try\<close> in \<^verbatim>\<open>_search_by_key\<close>.\<close>

definition direct_lookup :: "'w service \<Rightarrow> config \<Rightarrow> string \<Rightarrow> (ticket list, 'w) prog" where
  "direct_lookup srv self url =
     bindp (make_request srv self url None) (\<lambda>response.
     bindp (process_ticket srv self response) (\<lambda>t. returnp [t]))"

text \<open>The call of \<^verbatim>\<open>logger.warning\<close> in the handler writes to the log of the host only and
  is left out.\<close>

definition search_by_key :: "'w service \<Rightarrow> config \<Rightarrow> string \<Rightarrow> (ticket list, 'w) prog" where
  "search_by_key srv self key0 =
     (let key = upper (strip key0);
          url = jira_instance self @ ''/rest/api/2/issue/'' @ key
      in try_except (direct_lookup srv self url)
           (\<lambda>e. let jql_query = ''key = '' @ [dquote] @ key @ [dquote]
                in search_by_jql srv self jql_query))"


definition search_by_assignee :: "'w service \<Rightarrow> config \<Rightarrow> string \<Rightarrow> (ticket list, 'w) prog" where
  "search_by_assignee srv self assignee =
     (let jql_query = ''assignee = '' @ [dquote] @ assignee @ [dquote]
      in search_by_jql srv self jql_query)"

definition search_by_reporter :: "'w service \<Rightarrow> config \<Rightarrow> string \<Rightarrow> (ticket list, 'w) prog" where
  "search_by_reporter srv self reporter =
     (let jql_query = ''reporter = '' @ [dquote] @ reporter @ [dquote]
      in search_by_jql srv self jql_query)"

definition search_by_status :: "'w service \<Rightarrow> config \<Rightarrow> string \<Rightarrow> (ticket list, 'w) prog" where
  "search_by_status srv self status =
     (let jql_query = ''status = '' @ [dquote] @ status @ [dquote]
      in search_by_jql srv self jql_query)"

section \<open>Formatting\<close>

text \<open>One line of the comments block. Only the slice \<^verbatim>\<open>comment['body'][:100]\<close> can raise.\<close>

definition comment_line :: "comment \<Rightarrow> py_error + string" where
  "comment_line c =
     ebind (py_slice_to 100 (c_body c)) (\<lambda>b.
       Inr (''  - '' @ py_str (c_author c) @ '' ('' @ py_str (c_created c) @ ''): '' @ py_str b @ ''...''))"

fun comments_info_loop :: "comment list \<Rightarrow> string list \<Rightarrow> py_error + string list" where
  "comments_info_loop [] comments_info = Inr comments_info"
| "comments_info_loop (c # cs) comments_info =
     ebind (comment_line c) (\<lambda>l. comments_info_loop cs (comments_info @ [l]))"

definition attachment_line :: "attachment \<Rightarrow> string" where
  "attachment_line a =
     ''  - '' @ py_str (a_filename a) @ '' ('' @ py_str (a_size a) @ '' bytes)''"

text \<open>\<^verbatim>\<open>ticket.get("comments")\<close> as a condition: the key is there and the list is not empty.\<close>

definition present :: "'a list option \<Rightarrow> bool" where
  "present x = (case x of None \<Rightarrow> False | Some xs \<Rightarrow> xs \<noteq> [])"

definition entries :: "'a list option \<Rightarrow> 'a list" where
  "entries x = (case x of None \<Rightarrow> [] | Some xs \<Rightarrow> xs)"

definition ticket_header :: "ticket \<Rightarrow> string list" where
  "ticket_header t =
     [''Key: '' @ py_str (t_key t),
      ''Summary: '' @ py_str (t_summary t),
      ''Status: '' @ py_str (t_status t),
      ''Assignee: '' @ py_str (t_assignee t),
      ''Reporter: '' @ py_str (t_reporter t),
      ''URL: '' @ t_url t]"

text \<open>The body of the loop over \<^verbatim>\<open>results\<close>.\<close>

definition format_ticket :: "config \<Rightarrow> ticket \<Rightarrow> py_error + string" where
  "format_ticket self t =
     (let ticket_info = ticket_header t
      in ebind (if include_comments self \<and> present (t_comments t)
                then ebind (comments_info_loop (entries (t_comments t)) [''Comments:'']) (\<lambda>comments_info.
                       Inr (ticket_info @ [join [newline] comments_info]))
                else Inr ticket_info) (\<lambda>ticket_info.
         let ticket_info =
               (if include_attachments self \<and> present (t_attachments t)
                then ticket_info @
                       [join [newline] (''Attachments:'' # map attachment_line (entries (t_attachments t)))]
                else ticket_info)
         in Inr (join [newline] ticket_info)))"

fun format_loop :: "config \<Rightarrow> ticket list \<Rightarrow> string list \<Rightarrow> py_error + string list" where
  "format_loop self [] formatted_results = Inr formatted_results"
| "format_loop self (t # ts) formatted_results =
     ebind (format_ticket self t) (\<lambda>b. format_loop self ts (formatted_results @ [b]))"

definition format_search_results :: "config \<Rightarrow> ticket list \<Rightarrow> py_error + string" where
  "format_search_results self results =
     (if results = [] then Inr ''No tickets found.''
      else ebind (format_loop self results []) (\<lambda>formatted_results.
             Inr (join [newline, newline] formatted_results)))"

section \<open>The tools\<close>





section \<open>Observing a run\<close>

text \<open>Only the search request of \<^verbatim>\<open>_search_by_jql\<close> is sent with parameters.\<close>

definition is_search :: "request \<Rightarrow> bool" where
  "is_search r = (req_params r \<noteq> None)"

text \<open>The requests a computation sends when started in state \<open>s\<close>.\<close>

definition new_requests :: "('a, 'w) prog \<Rightarrow> 'w run \<Rightarrow> request list" where
  "new_requests m s = drop (length (sent s)) (sent (snd (m s)))"

text \<open>Every state \<open>m\<close> reaches keeps the requests sent before and adds only requests
  that satisfy \<open>P\<close>.\<close>

definition sends :: "(request \<Rightarrow> bool) \<Rightarrow> ('a, 'w) prog \<Rightarrow> bool" where
  "sends P m = (\<forall>s. \<exists>rest. sent (snd (m s)) = sent s @ rest \<and> list_all P rest)"

text \<open>The request \<^verbatim>\<open>_search_by_jql\<close> sends for a query.\<close>

definition search_request :: "config \<Rightarrow> string \<Rightarrow> request" where
  "search_request self jql_query =
     mk_request self (jira_instance self @ ''/rest/api/2/search'')
       (Some [(''jql'', JStr jql_query), (''maxResults'', JInt (max_results self))])"




section \<open>Sample data\<close>

text \<open>A configuration, a service that answers from a script (one reply per request, in
  order, and no response once the script is used up), and some replies of a Jira server.\<close>

definition demo_config :: config where
  "demo_config =
     \<lparr> jira_instance = ''https://jira.example.com'', api_token = ''secret'',
       username = ''bot'', search_type = ''all'', max_results = 10,
       include_comments = True, include_attachments = False \<rparr>"

definition scripted :: "reply list service" where
  "scripted w req = (case w of [] \<Rightarrow> (NoResponse, []) | r # rs \<Rightarrow> (r, rs))"

definition start :: "reply list \<Rightarrow> reply list run" where
  "start rs = \<lparr> world = rs, sent = [] \<rparr>"

definition ok :: "json \<Rightarrow> reply" where
  "ok j = Response \<lparr> status_code = 200, text_body = ''(json)'', json_body = Some j \<rparr>"

definition not_found :: response where
  "not_found = \<lparr> status_code = 404, text_body = ''Issue Does Not Exist'', json_body = None \<rparr>"

definition server_error :: response where
  "server_error = \<lparr> status_code = 500, text_body = ''Internal Server Error'', json_body = None \<rparr>"

definition demo_issue :: json where
  "demo_issue =
     JObj [(''key'', JStr ''PROJ-123''),
           (''fields'', JObj [(''summary'', JStr ''Crash on login''),
                             (''status'', JObj [(''name'', JStr ''Open'')]),
                             (''assignee'', JNull),
                             (''created'', JStr ''2024-01-01'')])]"

definition demo_comments :: json where
  "demo_comments =
     JObj [(''comments'',
            JArr [JObj [(''author'', JObj [(''displayName'', JStr ''Ada'')]),
                        (''created'', JStr ''2024-01-02''),
                        (''body'', JStr ''Seen on build 7'')]])]"

definition demo_ticket :: ticket where
  "demo_ticket =
     \<lparr> t_key = JStr ''PROJ-123'', t_summary = JStr ''Crash on login'', t_description = JNull,
       t_status = JStr ''Open'', t_priority = JNull, t_assignee = JStr ''Unassigned'',
       t_reporter = JStr ''Unknown'', t_created = JStr ''2024-01-01'', t_updated = JNull,
       t_url = ''https://jira.example.com/browse/PROJ-123'',
       t_comments = Some [\<lparr> c_author = JStr ''Ada'', c_created = JStr ''2024-01-02'',
                             c_body = JStr ''Seen on build 7'' \<rparr>],
       t_attachments = None \<rparr>"

section \<open>Basic facts\<close>

lemma ebind_simps [simp]:
  "ebind (Inl e) f = Inl e"
  "ebind (Inr x) f = f x"
  by (simp_all add: ebind_def)

lemma returnp_apply [simp]: "returnp x s = (Inr x, s)"
  by (simp add: returnp_def)

lemma liftp_apply [simp]: "liftp r s = (r, s)"
  by (simp add: liftp_def)

text \<open>The equations that evaluate a run on given data.\<close>

lemmas run_defs =
  search_by_key_def search_by_jql_def direct_lookup_def try_except_def bindp_def
  process_search_results_def process_ticket_def ticket_fields_def get_comments_def
  get_attachments_def comment_of_def attachment_of_def make_request_def mk_request_def
  check_response_def py_str_def upper_def strip_def is_space_def upper_char_def dquote_def
  str_int_def str_nat.simps digit_char_def new_requests_def search_request_def is_search_def

lemmas demo_defs =
  demo_config_def scripted_def start_def ok_def not_found_def server_error_def
  demo_issue_def demo_comments_def demo_ticket_def

section \<open>Requests sent by the operations\<close>

lemma sends_returnp: "sends P (returnp x)"
  by (simp add: sends_def)

lemma sends_liftp: "sends P (liftp r)"
  by (simp add: sends_def)

lemma sends_bindp:
  assumes m: "sends P m" and f: "\<And>x. sends P (f x)"
  shows "sends P (bindp m f)"
  unfolding sends_def
proof
  fix s
  from m obtain r1 where r1: "sent (snd (m s)) = sent s @ r1" "list_all P r1"
    unfolding sends_def by blast
  show "\<exists>rest. sent (snd (bindp m f s)) = sent s @ rest \<and> list_all P rest"
  proof (cases "m s")
    case (Pair r s1)
    show ?thesis
    proof (cases r)
      case (Inl e)
      with Pair r1 show ?thesis by (auto simp: bindp_def)
    next
      case (Inr x)
      from f obtain r2 where r2: "sent (snd (f x s1)) = sent s1 @ r2" "list_all P r2"
        unfolding sends_def by blast
      with Pair Inr r1 show ?thesis by (auto simp: bindp_def)
    qed
  qed
qed

lemma make_request_sent:
  "sent (snd (make_request srv self url params s)) = sent s @ [mk_request self url params]"
  by (simp add: make_request_def Let_def split: prod.splits reply.splits)

lemma sends_make_request:
  "P (mk_request self url params) \<Longrightarrow> sends P (make_request srv self url params)"
  by (simp add: sends_def make_request_sent)

lemma not_search_mk_request: "\<not> is_search (mk_request self url None)"
  by (simp add: is_search_def mk_request_def)

lemma sends_get_comments: "sends (\<lambda>r. \<not> is_search r) (get_comments srv self k)"
  unfolding get_comments_def
  by (auto intro!: sends_returnp sends_bindp sends_liftp sends_make_request not_search_mk_request)

lemma sends_get_attachments: "sends (\<lambda>r. \<not> is_search r) (get_attachments srv self k)"
  unfolding get_attachments_def
  by (auto intro!: sends_returnp sends_bindp sends_liftp sends_make_request not_search_mk_request)

lemma sends_process_ticket: "sends (\<lambda>r. \<not> is_search r) (process_ticket srv self raw)"
  unfolding process_ticket_def
  by (auto intro!: sends_returnp sends_bindp sends_liftp sends_get_comments sends_get_attachments)

lemma sends_results_loop: "sends (\<lambda>r. \<not> is_search r) (results_loop srv self xs acc)"
  by (induction xs arbitrary: acc)
     (auto intro!: sends_returnp sends_bindp sends_process_ticket)

lemma sends_process_search_results:
  "sends (\<lambda>r. \<not> is_search r) (process_search_results srv self issues)"
  unfolding process_search_results_def
  by (auto intro!: sends_bindp sends_liftp sends_results_loop)

lemma search_by_jql_sent:
  "\<exists>rest. sent (snd (search_by_jql srv self q s)) = sent s @ search_request self q # rest
      \<and> list_all (\<lambda>r. \<not> is_search r) rest"
proof -
  let ?m = "make_request srv self (jira_instance self @ ''/rest/api/2/search'')
              (Some [(''jql'', JStr q), (''maxResults'', JInt (max_results self))])"
  let ?f = "\<lambda>response. bindp (liftp (py_get response ''issues'' (JArr []))) (\<lambda>issues.
            process_search_results srv self issues)"
  have s1: "sent (snd (?m s)) = sent s @ [search_request self q]"
    by (simp add: make_request_sent search_request_def)
  have f: "\<And>x. sends (\<lambda>r. \<not> is_search r) (?f x)"
    by (auto intro!: sends_bindp sends_liftp sends_process_search_results)
  show ?thesis
  proof (cases "?m s")
    case (Pair r s1')
    show ?thesis
    proof (cases r)
      case (Inl e)
      with Pair s1 show ?thesis by (simp add: search_by_jql_def bindp_def)
    next
      case (Inr x)
      from f[of x] obtain r2 where "sent (snd (?f x s1')) = sent s1' @ r2" "list_all (\<lambda>r. \<not> is_search r) r2"
        unfolding sends_def by blast
      with Pair Inr s1 show ?thesis by (simp add: search_by_jql_def bindp_def)
    qed
  qed
qed

lemma search_by_jql_new_requests:
  "\<exists>rest. new_requests (search_by_jql srv self q) s = search_request self q # rest
      \<and> list_all (\<lambda>r. \<not> is_search r) rest"
  using search_by_jql_sent[of srv self q s] by (auto simp: new_requests_def)










lemma bindp_make_request_sent:
  assumes f: "\<And>x. sends P (f x)"
  shows "\<exists>rest. sent (snd (bindp (make_request srv self url params) f s))
                 = sent s @ mk_request self url params # rest \<and> list_all P rest"
proof (cases "make_request srv self url params s")
  case (Pair r s1)
  have s1: "sent s1 = sent s @ [mk_request self url params]"
    using make_request_sent[of srv self url params s] Pair by simp
  show ?thesis
  proof (cases r)
    case (Inl e)
    with Pair s1 show ?thesis by (simp add: bindp_def)
  next
    case (Inr x)
    from f[of x] obtain r2 where "sent (snd (f x s1)) = sent s1 @ r2" "list_all P r2"
      unfolding sends_def by blast
    with Pair Inr s1 show ?thesis by (simp add: bindp_def)
  qed
qed

lemma direct_lookup_sent:
  "\<exists>rest. sent (snd (direct_lookup srv self url s)) = sent s @ mk_request self url None # rest
      \<and> list_all (\<lambda>r. \<not> is_search r) rest"
  unfolding direct_lookup_def
  by (rule bindp_make_request_sent) (auto intro!: sends_bindp sends_returnp sends_process_ticket)

lemma search_by_key_cases:
  "search_by_key srv self k s =
     (case direct_lookup srv self (jira_instance self @ ''/rest/api/2/issue/'' @ upper (strip k)) s of
        (Inl e, s1) \<Rightarrow> search_by_jql srv self (''key = '' @ [CHR 0x22] @ upper (strip k) @ [CHR 0x22]) s1
      | (Inr ts, s1) \<Rightarrow> (Inr ts, s1))"
  by (simp add: search_by_key_def try_except_def Let_def dquote_def split: prod.splits sum.splits)

lemma search_by_key_fallback:
  assumes "direct_lookup srv self (jira_instance self @ ''/rest/api/2/issue/'' @ upper (strip k)) s = (Inl e, s1)"
  shows "search_by_key srv self k s =
           search_by_jql srv self (''key = '' @ [CHR 0x22] @ upper (strip k) @ [CHR 0x22]) s1"
  using assms by (simp add: search_by_key_cases)

lemma is_search_search_request: "is_search (search_request self q)"
  by (simp add: is_search_def search_request_def mk_request_def)

lemma filter_not_search: "list_all (\<lambda>r. \<not> is_search r) rs \<Longrightarrow> filter is_search rs = []"
  by (induction rs) auto


lemma search_by_key_fallback_requests:
  assumes "direct_lookup srv self (jira_instance self @ ''/rest/api/2/issue/'' @ upper (strip k)) s = (Inl e, s1)"
  shows "filter is_search (new_requests (search_by_key srv self k) s)
           = [search_request self (''key = '' @ [CHR 0x22] @ upper (strip k) @ [CHR 0x22])]"
proof -
  let ?url = "jira_instance self @ ''/rest/api/2/issue/'' @ upper (strip k)"
  let ?q = "''key = '' @ [CHR 0x22] @ upper (strip k) @ [CHR 0x22]"
  obtain r1 where r1: "sent s1 = sent s @ mk_request self ?url None # r1"
      "list_all (\<lambda>r. \<not> is_search r) r1"
    using direct_lookup_sent[of srv self ?url s] assms by auto
  obtain r2 where r2: "sent (snd (search_by_jql srv self ?q s1)) = sent s1 @ search_request self ?q # r2"
      "list_all (\<lambda>r. \<not> is_search r) r2"
    using search_by_jql_sent[of srv self ?q s1] by blast
  have "new_requests (search_by_key srv self k) s
          = mk_request self ?url None # r1 @ search_request self ?q # r2"
    using assms r1 r2 by (simp add: search_by_key_cases new_requests_def)
  then show ?thesis
    using r1 r2 by (simp add: filter_not_search not_search_mk_request is_search_search_request)
qed

lemma direct_lookup_request_fails:
  "make_request srv self url None s = (Inl e, s1) \<Longrightarrow> direct_lookup srv self url s = (Inl e, s1)"
  by (simp add: direct_lookup_def bindp_def)

lemma direct_lookup_process_fails:
  "make_request srv self url None s = (Inr resp, s1) \<Longrightarrow> process_ticket srv self resp s1 = (Inl e, s2)
     \<Longrightarrow> direct_lookup srv self url s = (Inl e, s2)"
  by (simp add: direct_lookup_def bindp_def)

lemma process_ticket_fields_fail:
  "ticket_fields self raw = Inl e \<Longrightarrow> process_ticket srv self raw s = (Inl e, s)"
  by (simp add: process_ticket_def bindp_def)

lemma process_ticket_comments_fail:
  "ticket_fields self raw = Inr pt \<Longrightarrow> include_comments self
     \<Longrightarrow> get_comments srv self (t_key pt) s = (Inl e, s')
     \<Longrightarrow> process_ticket srv self raw s = (Inl e, s')"
  by (simp add: process_ticket_def bindp_def)

section \<open>The formatter on no tickets\<close>

text \<open>
  Claim C7: \<^verbatim>\<open>_format_search_results\<close> applied to the empty list of tickets returns exactly
  the string "No tickets found.", whatever the configuration.
\<close>

theorem format_search_results_empty:
  "format_search_results self [] = Inr ''No tickets found.''"
  by (simp add: format_search_results_def)

section \<open>Query templates\<close>

text \<open>
  Claim C2: for every input string \<open>x\<close>, the text search sends the query
  \<^verbatim>\<open>text ~ "x"\<close>, and the assignee, reporter and status searches send
  \<^verbatim>\<open>assignee = "x"\<close>, \<^verbatim>\<open>reporter = "x"\<close> and \<^verbatim>\<open>status = "x"\<close>, with \<open>x\<close> put in as it
  is: each operation is the JQL search on that expression, and the one search request it
  sends carries the expression as its \<^verbatim>\<open>jql\<close> parameter.
\<close>

theorem query_templates:
  "search_by_text srv self x = search_by_jql srv self (''text ~ '' @ [CHR 0x22] @ x @ [CHR 0x22])
   \<and> search_by_assignee srv self x = search_by_jql srv self (''assignee = '' @ [CHR 0x22] @ x @ [CHR 0x22])
   \<and> search_by_reporter srv self x = search_by_jql srv self (''reporter = '' @ [CHR 0x22] @ x @ [CHR 0x22])
   \<and> search_by_status srv self x = search_by_jql srv self (''status = '' @ [CHR 0x22] @ x @ [CHR 0x22])
   \<and> filter is_search (new_requests (search_by_text srv self x) s)
         = [search_request self (''text ~ '' @ [CHR 0x22] @ x @ [CHR 0x22])]
   \<and> filter is_search (new_requests (search_by_assignee srv self x) s)
         = [search_request self (''assignee = '' @ [CHR 0x22] @ x @ [CHR 0x22])]
   \<and> filter is_search (new_requests (search_by_reporter srv self x) s)
         = [search_request self (''reporter = '' @ [CHR 0x22] @ x @ [CHR 0x22])]
   \<and> filter is_search (new_requests (search_by_status srv self x) s)
         = [search_request self (''status = '' @ [CHR 0x22] @ x @ [CHR 0x22])]
   \<and> req_params (search_request self q) = Some [(''jql'', JStr q), (''maxResults'', JInt (max_results self))]"
proof -
  have eqs:
    "search_by_text srv self x = search_by_jql srv self (''text ~ '' @ [CHR 0x22] @ x @ [CHR 0x22])"
    "search_by_assignee srv self x = search_by_jql srv self (''assignee = '' @ [CHR 0x22] @ x @ [CHR 0x22])"
    "search_by_reporter srv self x = search_by_jql srv self (''reporter = '' @ [CHR 0x22] @ x @ [CHR 0x22])"
    "search_by_status srv self x = search_by_jql srv self (''status = '' @ [CHR 0x22] @ x @ [CHR 0x22])"
    by (simp_all add: search_by_text_def search_by_assignee_def search_by_reporter_def
          search_by_status_def dquote_def)
  have one: "filter is_search (new_requests (search_by_jql srv self q') s) = [search_request self q']" for q'
  proof -
    obtain rest where "new_requests (search_by_jql srv self q') s = search_request self q' # rest"
        "list_all (\<lambda>r. \<not> is_search r) rest"
      using search_by_jql_new_requests[of srv self q' s] by blast
    then show ?thesis by (simp add: is_search_search_request filter_not_search)
  qed
  have "req_params (search_request self q) = Some [(''jql'', JStr q), (''maxResults'', JInt (max_results self))]"
    by (simp add: search_request_def mk_request_def)
  then show ?thesis
    unfolding eqs by (simp only: one simp_thms)
qed

section \<open>The contract of the HTTP client\<close>

text \<open>
  Claim C5: given a response, \<^verbatim>\<open>_make_request\<close> raises the error whose message carries
  the status code and the raw body if and only if the status is not 200; when the status
  is 200 it returns what \<^verbatim>\<open>response.json()\<close> gives for the body.
\<close>

theorem make_request_status:
  assumes "srv (world s) (mk_request self url params) = (Response r, w')"
  shows "fst (make_request srv self url params s) =
           (if status_code r \<noteq> 200
            then Inl (ValueError (''Jira API request failed: '' @ str_int (status_code r) @ '' - '' @ text_body r))
            else (case json_body r of None \<Rightarrow> Inl JSONDecodeError | Some j \<Rightarrow> Inr j))
       \<and> ((\<exists>msg. fst (make_request srv self url params s) = Inl (ValueError msg)) = (status_code r \<noteq> 200))"
  using assms by (auto simp: make_request_def check_response_def split: option.splits)

theorem make_request_status_witness:
  "fst (make_request scripted demo_config ''https://jira.example.com/rest/api/2/issue/X-1'' None
         (start [Response not_found]))
     = Inl (ValueError ''Jira API request failed: 404 - Issue Does Not Exist'')
   \<and> fst (make_request scripted demo_config ''https://jira.example.com/rest/api/2/issue/PROJ-123'' None
         (start [ok demo_issue]))
     = Inr demo_issue"
  using make_request_status [of scripted "start [Response not_found]" demo_config
      "''https://jira.example.com/rest/api/2/issue/X-1''" None not_found "[]"]
    make_request_status [of scripted "start [ok demo_issue]" demo_config
      "''https://jira.example.com/rest/api/2/issue/PROJ-123''" None
      "\<lparr> status_code = 200, text_body = ''(json)'', json_body = Some demo_issue \<rparr>" "[]"]
  by (simp add: scripted_def start_def ok_def not_found_def str_int_def str_nat.simps digit_char_def)

section \<open>The key search cleans its input\<close>



section \<open>The two key searches\<close>


section \<open>The fallback of the key search\<close>

text \<open>
  Claim C4: when the direct lookup request of \<^verbatim>\<open>_search_by_key\<close> fails (a 404 response
  among the failures), the operation continues as the JQL search on the key-equality
  expression, from the state the failed lookup left: exactly one search request is sent,
  the error of the lookup is not raised, and the caller gets an error exactly when that
  search fails.
\<close>

theorem failed_lookup_falls_back_once:
  assumes "make_request srv self (jira_instance self @ ''/rest/api/2/issue/'' @ upper (strip k)) None s = (Inl e, s1)"
  shows "search_by_key srv self k s
           = search_by_jql srv self (''key = '' @ [CHR 0x22] @ upper (strip k) @ [CHR 0x22]) s1
       \<and> length (filter is_search (new_requests (search_by_key srv self k) s)) = 1
       \<and> ((\<exists>e'. fst (search_by_key srv self k s) = Inl e')
            = (\<exists>e'. fst (search_by_jql srv self (''key = '' @ [CHR 0x22] @ upper (strip k) @ [CHR 0x22]) s1) = Inl e'))"
proof -
  from assms have d: "direct_lookup srv self (jira_instance self @ ''/rest/api/2/issue/'' @ upper (strip k)) s = (Inl e, s1)"
    by (rule direct_lookup_request_fails)
  show ?thesis
    using search_by_key_fallback[OF d] search_by_key_fallback_requests[OF d] by simp
qed

theorem failed_lookup_falls_back_once_witness:
  "make_request scripted demo_config ''https://jira.example.com/rest/api/2/issue/PROJ-123'' None
       (start [Response not_found, ok (JObj [(''issues'', JArr [demo_issue])]), ok demo_comments])
     = (Inl (ValueError ''Jira API request failed: 404 - Issue Does Not Exist''),
        \<lparr> world = [ok (JObj [(''issues'', JArr [demo_issue])]), ok demo_comments],
          sent = [mk_request demo_config ''https://jira.example.com/rest/api/2/issue/PROJ-123'' None] \<rparr>)
   \<and> length (filter is_search (new_requests (search_by_key scripted demo_config ''proj-123'')
         (start [Response not_found, ok (JObj [(''issues'', JArr [demo_issue])]), ok demo_comments]))) = 1
   \<and> fst (search_by_key scripted demo_config ''proj-123''
         (start [Response not_found, ok (JObj [(''issues'', JArr [demo_issue])]), ok demo_comments]))
     = Inr [demo_ticket]"
proof -
  let ?s = "start [Response not_found, ok (JObj [(''issues'', JArr [demo_issue])]), ok demo_comments]"
  let ?s1 = "\<lparr> world = [ok (JObj [(''issues'', JArr [demo_issue])]), ok demo_comments],
          sent = [mk_request demo_config ''https://jira.example.com/rest/api/2/issue/PROJ-123'' None] \<rparr>"
  have k: "upper (strip ''proj-123'') = ''PROJ-123''"
    by (simp add: upper_def strip_def is_space_def upper_char_def)
  have m: "make_request scripted demo_config (jira_instance demo_config @ ''/rest/api/2/issue/'' @ upper (strip ''proj-123'')) None ?s
     = (Inl (ValueError ''Jira API request failed: 404 - Issue Does Not Exist''), ?s1)"
    unfolding k by (simp add: run_defs demo_defs)
  have j: "fst (search_by_jql scripted demo_config (''key = '' @ [CHR 0x22] @ ''PROJ-123'' @ [CHR 0x22]) ?s1) = Inr [demo_ticket]"
    by (simp add: run_defs demo_defs)
  from failed_lookup_falls_back_once [OF m] j m show ?thesis
    unfolding k by (simp add: demo_config_def)
qed

text \<open>
  Claim C10: the fallback of \<^verbatim>\<open>_search_by_key\<close> is taken on any exception raised in
  the \<^verbatim>\<open>try\<close> block: when the lookup request fails, and also when the lookup succeeds and
  normalising the fetched ticket fails, be it on the fields of the record, on the request
  for its comments or on the request for its attachments.
\<close>

theorem any_failure_in_try_falls_back:
  "(\<forall>e s1. direct_lookup srv self (jira_instance self @ ''/rest/api/2/issue/'' @ upper (strip k)) s = (Inl e, s1)
      \<longrightarrow> search_by_key srv self k s
            = search_by_jql srv self (''key = '' @ [CHR 0x22] @ upper (strip k) @ [CHR 0x22]) s1)
   \<and> (\<forall>e s1. make_request srv self (jira_instance self @ ''/rest/api/2/issue/'' @ upper (strip k)) None s = (Inl e, s1)
      \<longrightarrow> search_by_key srv self k s
            = search_by_jql srv self (''key = '' @ [CHR 0x22] @ upper (strip k) @ [CHR 0x22]) s1)
   \<and> (\<forall>resp s1 e s2.
        make_request srv self (jira_instance self @ ''/rest/api/2/issue/'' @ upper (strip k)) None s = (Inr resp, s1)
        \<and> process_ticket srv self resp s1 = (Inl e, s2)
      \<longrightarrow> search_by_key srv self k s
            = search_by_jql srv self (''key = '' @ [CHR 0x22] @ upper (strip k) @ [CHR 0x22]) s2)
   \<and> (\<forall>raw e s1. ticket_fields self raw = Inl e \<longrightarrow> process_ticket srv self raw s1 = (Inl e, s1))
   \<and> (\<forall>raw pt e s1 s2.
        ticket_fields self raw = Inr pt \<and> include_comments self
        \<and> get_comments srv self (t_key pt) s1 = (Inl e, s2)
      \<longrightarrow> process_ticket srv self raw s1 = (Inl e, s2))
   \<and> (\<forall>raw pt cs e s1 sc s2.
        ticket_fields self raw = Inr pt \<and> include_attachments self
        \<and> (if include_comments self then get_comments srv self (t_key pt) s1 = (Inr cs, sc) else sc = s1)
        \<and> get_attachments srv self (t_key pt) sc = (Inl e, s2)
      \<longrightarrow> process_ticket srv self raw s1 = (Inl e, s2))"
proof -
  let ?u = "jira_instance self @ ''/rest/api/2/issue/'' @ upper (strip k)"
  have a: "\<forall>e s1. make_request srv self ?u None s = (Inl e, s1)
      \<longrightarrow> search_by_key srv self k s
            = search_by_jql srv self (''key = '' @ [CHR 0x22] @ upper (strip k) @ [CHR 0x22]) s1"
    using search_by_key_fallback direct_lookup_request_fails by blast
  have b: "\<forall>resp s1 e s2. make_request srv self ?u None s = (Inr resp, s1)
        \<and> process_ticket srv self resp s1 = (Inl e, s2)
      \<longrightarrow> search_by_key srv self k s
            = search_by_jql srv self (''key = '' @ [CHR 0x22] @ upper (strip k) @ [CHR 0x22]) s2"
    using search_by_key_fallback direct_lookup_process_fails by blast
  have c: "\<forall>raw e s1. ticket_fields self raw = Inl e \<longrightarrow> process_ticket srv self raw s1 = (Inl e, s1)"
    by (simp add: process_ticket_fields_fail)
  have d: "\<forall>raw pt e s1 s2. ticket_fields self raw = Inr pt \<and> include_comments self
        \<and> get_comments srv self (t_key pt) s1 = (Inl e, s2)
      \<longrightarrow> process_ticket srv self raw s1 = (Inl e, s2)"
    using process_ticket_comments_fail by blast
  have e: "\<forall>raw pt cs e s1 sc s2.
        ticket_fields self raw = Inr pt \<and> include_attachments self
        \<and> (if include_comments self then get_comments srv self (t_key pt) s1 = (Inr cs, sc) else sc = s1)
        \<and> get_attachments srv self (t_key pt) sc = (Inl e, s2)
      \<longrightarrow> process_ticket srv self raw s1 = (Inl e, s2)"
    by (auto simp: process_ticket_def bindp_def)
  have z: "\<forall>e s1. direct_lookup srv self ?u s = (Inl e, s1)
      \<longrightarrow> search_by_key srv self k s
            = search_by_jql srv self (''key = '' @ [CHR 0x22] @ upper (strip k) @ [CHR 0x22]) s1"
    using search_by_key_fallback by blast
  from z a b c d e show ?thesis by (intro conjI)
qed

theorem any_failure_in_try_falls_back_witness:
  "make_request scripted demo_config ''https://jira.example.com/rest/api/2/issue/PROJ-123'' None
       (start [ok demo_issue, Response server_error, ok (JObj [(''issues'', JArr [demo_issue])]), ok demo_comments])
     = (Inr demo_issue,
        \<lparr> world = [Response server_error, ok (JObj [(''issues'', JArr [demo_issue])]), ok demo_comments],
          sent = [mk_request demo_config ''https://jira.example.com/rest/api/2/issue/PROJ-123'' None] \<rparr>)
   \<and> process_ticket scripted demo_config demo_issue
        \<lparr> world = [Response server_error, ok (JObj [(''issues'', JArr [demo_issue])]), ok demo_comments],
          sent = [mk_request demo_config ''https://jira.example.com/rest/api/2/issue/PROJ-123'' None] \<rparr>
     = (Inl (ValueError ''Jira API request failed: 500 - Internal Server Error''),
        \<lparr> world = [ok (JObj [(''issues'', JArr [demo_issue])]), ok demo_comments],
          sent = [mk_request demo_config ''https://jira.example.com/rest/api/2/issue/PROJ-123'' None,
                  mk_request demo_config ''https://jira.example.com/rest/api/2/issue/PROJ-123/comment'' None] \<rparr>)
   \<and> search_by_key scripted demo_config ''proj-123''
        (start [ok demo_issue, Response server_error, ok (JObj [(''issues'', JArr [demo_issue])]), ok demo_comments])
     = search_by_jql scripted demo_config (''key = '' @ [CHR 0x22] @ ''PROJ-123'' @ [CHR 0x22])
        \<lparr> world = [ok (JObj [(''issues'', JArr [demo_issue])]), ok demo_comments],
          sent = [mk_request demo_config ''https://jira.example.com/rest/api/2/issue/PROJ-123'' None,
                  mk_request demo_config ''https://jira.example.com/rest/api/2/issue/PROJ-123/comment'' None] \<rparr>
   \<and> fst (search_by_key scripted demo_config ''proj-123''
        (start [ok demo_issue, Response server_error, ok (JObj [(''issues'', JArr [demo_issue])]), ok demo_comments]))
     = Inr [demo_ticket]"
proof -
  let ?s = "start [ok demo_issue, Response server_error, ok (JObj [(''issues'', JArr [demo_issue])]), ok demo_comments]"
  let ?s1 = "\<lparr> world = [Response server_error, ok (JObj [(''issues'', JArr [demo_issue])]), ok demo_comments],
          sent = [mk_request demo_config ''https://jira.example.com/rest/api/2/issue/PROJ-123'' None] \<rparr>"
  let ?s2 = "\<lparr> world = [ok (JObj [(''issues'', JArr [demo_issue])]), ok demo_comments],
          sent = [mk_request demo_config ''https://jira.example.com/rest/api/2/issue/PROJ-123'' None,
                  mk_request demo_config ''https://jira.example.com/rest/api/2/issue/PROJ-123/comment'' None] \<rparr>"
  have k: "upper (strip ''proj-123'') = ''PROJ-123''"
    by (simp add: upper_def strip_def is_space_def upper_char_def)
  have m: "make_request scripted demo_config
             (jira_instance demo_config @ ''/rest/api/2/issue/'' @ upper (strip ''proj-123'')) None ?s
           = (Inr demo_issue, ?s1)"
    unfolding k by (simp add: run_defs demo_defs)
  have p: "process_ticket scripted demo_config demo_issue ?s1
           = (Inl (ValueError ''Jira API request failed: 500 - Internal Server Error''), ?s2)"
    by (simp add: run_defs demo_defs)
  have j: "fst (search_by_jql scripted demo_config (''key = '' @ [CHR 0x22] @ ''PROJ-123'' @ [CHR 0x22]) ?s2)
           = Inr [demo_ticket]"
    by (simp add: run_defs demo_defs)
  from any_failure_in_try_falls_back [of scripted demo_config "''proj-123''" ?s] m p
  have "search_by_key scripted demo_config ''proj-123'' ?s
          = search_by_jql scripted demo_config (''key = '' @ [CHR 0x22] @ upper (strip ''proj-123'') @ [CHR 0x22]) ?s2"
    by blast
  with m p j show ?thesis
    unfolding k by (simp add: demo_config_def)
qed

section \<open>Normalised tickets\<close>





text \<open>An assignee that is there but has no \<^verbatim>\<open>displayName\<close> is not replaced by the
  sentinel: the assignee of the ticket is \<^verbatim>\<open>None\<close> then.\<close>

lemma assignee_without_display_name:
  "map_sum id t_assignee
     (ticket_fields demo_config
        (JObj [(''key'', JStr ''PROJ-7''),
               (''fields'', JObj [(''assignee'', JObj [(''accountId'', JStr ''5b10'')])])]))
     = Inr JNull"
  by (simp add: ticket_fields_def py_str_def)

section \<open>Formatted comments\<close>






section \<open>The registered tools\<close>



end
